theory Spec2Isabelle
  imports Main "HOL-Library.Word"
begin

section \<open>Aligned memory of Siv3D (AlignedMemory.hpp)\<close>

text \<open>
  The header wraps the platform's aligned allocation primitive and builds placement
  construction, destruction and smart-pointer factories on it. The embedding keeps the
  header's function names.

  A pointer is its numeric address, a value of the machine's \<open>size_t\<close>: a word of
  \<open>LENGTH('w)\<close> bits. \<open>nullptr\<close> is the address 0.
\<close>

subsection \<open>Calls that leave the header\<close>

text \<open>
  Everything the header does to the outside goes through six calls: the two platform
  allocation primitives, the two platform release functions, the constructor and the
  destructor of the target type. The state threaded through the model is the list of
  these calls so far, oldest first. An allocation call is logged with its arguments and
  with what the primitive answered.
\<close>

datatype 'p call =
    aligned_malloc_call 'p 'p 'p
      \<comment> \<open>\<open>_aligned_malloc(size, alignment)\<close> and the pointer it returned\<close>
  | posix_memalign_call 'p 'p int "'p option"
      \<comment> \<open>\<open>posix_memalign(&p, alignment, size)\<close>, its return code, and what it stored
          through its first argument (\<open>None\<close>: it stored nothing)\<close>
  | aligned_free_call 'p
      \<comment> \<open>\<open>_aligned_free(p)\<close>\<close>
  | free_call 'p
      \<comment> \<open>\<open>free(p)\<close>\<close>
  | placement_new 'p
      \<comment> \<open>\<open>::new (p) Type(args...)\<close>\<close>
  | destructor_call 'p
      \<comment> \<open>\<open>p->~Type()\<close>\<close>

type_synonym 'w trace = "'w word call list"

text \<open>
  The build target decides which branch of each \<open># if defined(SIV3D_TARGET_WINDOWS)\<close>
  is compiled.
\<close>

datatype target = SIV3D_TARGET_WINDOWS | SIV3D_TARGET_OTHER

text \<open>
  The platform is a parameter. Its primitives may answer differently from call to call,
  so each takes the calls made so far. \<open>posix_memalign\<close> returns an error code and
  may or may not write through its first argument. \<open>indeterminate\<close> is the value an
  uninitialised local pointer variable happens to hold.
\<close>

record 'p platform =
  target :: target
  aligned_malloc :: "'p call list \<Rightarrow> 'p \<Rightarrow> 'p \<Rightarrow> 'p"
  posix_memalign :: "'p call list \<Rightarrow> 'p \<Rightarrow> 'p \<Rightarrow> int \<times> 'p option"
  indeterminate :: "'p call list \<Rightarrow> 'p"

text \<open>What the templates read of a type: \<open>sizeof(Type)\<close> and \<open>alignof(Type)\<close>.\<close>

record 'p cpp_type =
  sizeof :: 'p
  alignof :: 'p

subsection \<open>AlignedMalloc and AlignedFree\<close>

text \<open>
  \<open>AlignedMalloc<Type, Alignment>(n)\<close>. On Windows the result of
  \<open>_aligned_malloc\<close> is returned. Otherwise a local \<open>Type* p\<close> is declared without
  an initialiser, its address is passed to \<open>posix_memalign\<close>, the return code is
  dropped and \<open>p\<close> is returned: the stored pointer if the primitive stored one, the
  indeterminate initial value if it did not.
\<close>

definition AlignedMalloc ::
  "'w::len word platform \<Rightarrow> 'w word cpp_type \<Rightarrow> 'w word \<Rightarrow> 'w word \<Rightarrow> 'w trace \<Rightarrow> 'w word \<times> 'w trace"
where
  "AlignedMalloc pf ty Alignment n tr =
     (case target pf of
        SIV3D_TARGET_WINDOWS \<Rightarrow>
          (let r = aligned_malloc pf tr (sizeof ty * n) Alignment
           in (r, tr @ [aligned_malloc_call (sizeof ty * n) Alignment r]))
      | SIV3D_TARGET_OTHER \<Rightarrow>
          (let p0 = indeterminate pf tr;
               (rc, stored) = posix_memalign pf tr Alignment (sizeof ty * n);
               p = (case stored of None \<Rightarrow> p0 | Some q \<Rightarrow> q)
           in (p, tr @ [posix_memalign_call Alignment (sizeof ty * n) rc stored])))"

text \<open>\<open>AlignedFree(p)\<close> hands \<open>p\<close> to the platform's release function, unchecked.\<close>

definition AlignedFree :: "'w::len word platform \<Rightarrow> 'w word \<Rightarrow> 'w trace \<Rightarrow> 'w trace" where
  "AlignedFree pf p tr =
     (case target pf of
        SIV3D_TARGET_WINDOWS \<Rightarrow> tr @ [aligned_free_call p]
      | SIV3D_TARGET_OTHER \<Rightarrow> tr @ [free_call p])"

text \<open>
  When the primitive of the compiled branch failed, as the platform reports failure:
  \<open>_aligned_malloc\<close> by returning null, \<open>posix_memalign\<close> by a nonzero return code.
\<close>

definition primitive_failed ::
  "'w::len word platform \<Rightarrow> 'w trace \<Rightarrow> 'w word \<Rightarrow> 'w word \<Rightarrow> bool"
where
  "primitive_failed pf tr sz Alignment =
     (case target pf of
        SIV3D_TARGET_WINDOWS \<Rightarrow> aligned_malloc pf tr sz Alignment = 0
      | SIV3D_TARGET_OTHER \<Rightarrow> fst (posix_memalign pf tr Alignment sz) \<noteq> 0)"

text \<open>
  The block the primitive of the compiled branch handed out for a request, if it handed
  one out: the non-null result of \<open>_aligned_malloc\<close>, or the non-null pointer that
  \<open>posix_memalign\<close> stored when it returned 0.
\<close>

definition primitive_block ::
  "'w::len word platform \<Rightarrow> 'w trace \<Rightarrow> 'w word \<Rightarrow> 'w word \<Rightarrow> 'w word option"
where
  "primitive_block pf tr sz Alignment =
     (case target pf of
        SIV3D_TARGET_WINDOWS \<Rightarrow>
          (let r = aligned_malloc pf tr sz Alignment in if r = 0 then None else Some r)
      | SIV3D_TARGET_OTHER \<Rightarrow>
          (case posix_memalign pf tr Alignment sz of
             (rc, stored) \<Rightarrow>
               if rc = 0
               then (case stored of None \<Rightarrow> None | Some q \<Rightarrow> if q = 0 then None else Some q)
               else None))"

text \<open>The byte size and the alignment an allocation call asked for.\<close>

fun requested :: "'p call \<Rightarrow> ('p \<times> 'p) option" where
  "requested (aligned_malloc_call sz al r) = Some (sz, al)"
| "requested (posix_memalign_call al sz rc stored) = Some (sz, al)"
| "requested (aligned_free_call p) = None"
| "requested (free_call p) = None"
| "requested (placement_new p) = None"
| "requested (destructor_call p) = None"

subsection \<open>The blocks the platform holds allocated\<close>

text \<open>
  The platform functions are not part of the header. Their effect on the set of
  allocated blocks is taken from their contract in the C library, which the header's
  remark on \<open>AlignedFree\<close> repeats for null: a successful allocation adds the block
  it returned; releasing null does nothing; releasing an allocated block removes it;
  releasing anything else is a contract violation (\<open>None\<close>). Constructors and
  destructors are opaque here.
\<close>

fun platform_effect :: "'w::len word call \<Rightarrow> 'w word set \<Rightarrow> 'w word set option" where
  "platform_effect (aligned_malloc_call sz al r) H =
     Some (if r = 0 then H else insert r H)"
| "platform_effect (posix_memalign_call al sz rc stored) H =
     Some (if rc = 0 then (case stored of None \<Rightarrow> H | Some q \<Rightarrow> if q = 0 then H else insert q H)
           else H)"
| "platform_effect (aligned_free_call p) H =
     (if p = 0 then Some H else if p \<in> H then Some (H - {p}) else None)"
| "platform_effect (free_call p) H =
     (if p = 0 then Some H else if p \<in> H then Some (H - {p}) else None)"
| "platform_effect (placement_new p) H = Some H"
| "platform_effect (destructor_call p) H = Some H"

fun allocated_from :: "'w::len word set \<Rightarrow> 'w trace \<Rightarrow> 'w word set option" where
  "allocated_from H [] = Some H"
| "allocated_from H (c # cs) =
     (case platform_effect c H of None \<Rightarrow> None | Some H' \<Rightarrow> allocated_from H' cs)"

definition allocated :: "'w::len trace \<Rightarrow> 'w word set option" where
  "allocated tr = allocated_from {} tr"

subsection \<open>HasAlignment\<close>

text \<open>
  \<open>HasAlignment<Type>::value\<close> is \<open>alignof(Type) > SIV3D_ALLOCATOR_MIN_ALIGNMENT\<close>.
  The macro is defined outside this header; its value, converted to \<open>size_t\<close> for the
  comparison, is the parameter \<open>min_alignment\<close>.
\<close>

definition HasAlignment :: "'w::len word \<Rightarrow> 'w word cpp_type \<Rightarrow> bool" where
  "HasAlignment min_alignment ty = (alignof ty > min_alignment)"

subsection \<open>AlignedNew and AlignedDelete\<close>

text \<open>
  What a call can throw: \<open>std::bad_alloc\<close>, or whatever the constructor threw, passed
  on by \<open>throw;\<close>.
\<close>

datatype 'e exn = bad_alloc | rethrown 'e

text \<open>
  \<open>AlignedNew<Type>(args...)\<close>. The constructor with its arguments is the parameter
  \<open>ctor\<close>: given the address it constructs at, it returns normally (\<open>None\<close>) or
  throws (\<open>Some e\<close>).
\<close>

definition AlignedNew ::
  "'w::len word platform \<Rightarrow> 'w word cpp_type \<Rightarrow> ('w word \<Rightarrow> 'e option) \<Rightarrow> 'w trace
     \<Rightarrow> ('e exn + 'w word) \<times> 'w trace"
where
  "AlignedNew pf ty ctor tr =
     (let (p, tr1) = AlignedMalloc pf ty (alignof ty) 1 tr
      in if p = 0 then (Inl bad_alloc, tr1)
         else (case ctor p of
                 Some e \<Rightarrow> (Inl (rethrown e), AlignedFree pf p (tr1 @ [placement_new p]))
               | None \<Rightarrow> (Inr p, tr1 @ [placement_new p])))"

text \<open>
  \<open>AlignedDelete(p)\<close>. The destructor is the parameter \<open>dtor\<close>: called at an
  address, it returns normally (\<open>None\<close>) or exits by an exception (\<open>Some e\<close>).
  The two statements \<open>p->~Type(); AlignedFree(p);\<close> are not inside a \<open>try\<close>, so an
  exception from the destructor leaves \<open>AlignedDelete\<close> before \<open>AlignedFree\<close> is
  reached. The first component of the result is the exception that leaves, if any.
\<close>

definition AlignedDelete ::
  "'w::len word platform \<Rightarrow> ('w word \<Rightarrow> 'e option) \<Rightarrow> 'w word \<Rightarrow> 'w trace
     \<Rightarrow> 'e option \<times> 'w trace"
where
  "AlignedDelete pf dtor p tr =
     (if p = 0 then (None, tr)
      else (case dtor p of
              Some e \<Rightarrow> (Some e, tr @ [destructor_call p])
            | None \<Rightarrow> (None, AlignedFree pf p (tr @ [destructor_call p]))))"

subsection \<open>IsAligned\<close>

text \<open>
  \<open>IsAligned(p, alignment)\<close> computes \<open>reinterpret_cast<size_t>(p) % alignment\<close>.
  The remainder by zero is undefined in C++ (a trap on most targets), where HOL's
  \<open>mod\<close> would silently return its first argument; the model makes it a fault.
  The function takes and returns no trace: it calls nothing.
\<close>

datatype fault = division_by_zero

definition IsAligned :: "'w::len word \<Rightarrow> 'w word \<Rightarrow> fault + bool" where
  "IsAligned p alignment =
     (if alignment = 0 then Inl division_by_zero
      else Inr (p mod alignment = 0))"

subsection \<open>Owning handles and the generic factories\<close>

text \<open>
  A factory body is described by what it builds and how: the kind of handle, the function
  that obtains and constructs the object, and the deleter the handle is given.
  \<open>std::make_unique\<close> and \<open>std::make_shared\<close> are the standard library's: default
  allocation, default deletion. \<open>AlignedUnique\<close> builds
  \<open>std::unique_ptr<Type, AlignedDeleter<Type>>(AlignedNew<Type>(args...))\<close>, and
  \<open>AlignedShared\<close> builds
  \<open>std::shared_ptr<Type>(AlignedNew<Type>(args...), AlignedDeleter<Type>())\<close>.
  \<open>AlignedDeleter::operator()\<close> is \<open>AlignedDelete\<close>.
\<close>

datatype handle_kind = unique_ptr | shared_ptr

datatype allocator = std_new | AlignedNew_function

datatype deleter = default_delete | AlignedDeleter

record factory_body =
  handle :: handle_kind
  obtains_with :: allocator
  releases_with :: deleter

definition std_make_unique :: factory_body where
  "std_make_unique =
     \<lparr>handle = unique_ptr, obtains_with = std_new, releases_with = default_delete\<rparr>"

definition std_make_shared :: factory_body where
  "std_make_shared =
     \<lparr>handle = shared_ptr, obtains_with = std_new, releases_with = default_delete\<rparr>"

definition AlignedUnique :: factory_body where
  "AlignedUnique =
     \<lparr>handle = unique_ptr, obtains_with = AlignedNew_function, releases_with = AlignedDeleter\<rparr>"

definition AlignedShared :: factory_body where
  "AlignedShared =
     \<lparr>handle = shared_ptr, obtains_with = AlignedNew_function, releases_with = AlignedDeleter\<rparr>"

definition AlignedDeleter_call ::
  "'w::len word platform \<Rightarrow> ('w word \<Rightarrow> 'e option) \<Rightarrow> 'w word \<Rightarrow> 'w trace
     \<Rightarrow> 'e option \<times> 'w trace"
where
  "AlignedDeleter_call pf dtor p tr = AlignedDelete pf dtor p tr"

text \<open>
  \<open>MakeUnique\<close> and \<open>MakeShared\<close> are each declared twice with the same parameters.
  An overload takes part in a call only if its \<open>std::enable_if_t\<close> condition, a
  function of \<open>HasAlignment<Type>::value\<close>, holds. The second \<open>MakeShared\<close> spells
  out the expression of \<open>AlignedShared\<close>.
\<close>

record overload =
  enable_if :: "bool \<Rightarrow> bool"
  body :: factory_body

definition MakeUnique :: "overload list" where
  "MakeUnique =
     [\<lparr>enable_if = (\<lambda>has_alignment. \<not> has_alignment), body = std_make_unique\<rparr>,
      \<lparr>enable_if = (\<lambda>has_alignment. has_alignment), body = AlignedUnique\<rparr>]"

definition MakeShared :: "overload list" where
  "MakeShared =
     [\<lparr>enable_if = (\<lambda>has_alignment. \<not> has_alignment), body = std_make_shared\<rparr>,
      \<lparr>enable_if = (\<lambda>has_alignment. has_alignment), body = AlignedShared\<rparr>]"

definition viable :: "'w::len word \<Rightarrow> 'w word cpp_type \<Rightarrow> overload list \<Rightarrow> overload list" where
  "viable min_alignment ty overloads =
     filter (\<lambda>ov. enable_if ov (HasAlignment min_alignment ty)) overloads"

text \<open>
  Overload resolution among declarations with identical parameters: the call compiles
  exactly when one overload is viable.
\<close>

datatype compile_error = no_matching_function | ambiguous_call

definition resolve ::
  "'w::len word \<Rightarrow> 'w word cpp_type \<Rightarrow> overload list \<Rightarrow> compile_error + factory_body"
where
  "resolve min_alignment ty overloads =
     (case viable min_alignment ty overloads of
        [] \<Rightarrow> Inl no_matching_function
      | [ov] \<Rightarrow> Inr (body ov)
      | _ \<Rightarrow> Inl ambiguous_call)"

subsection \<open>Reading a trace\<close>

text \<open>Whether a call hands the block \<open>p\<close> to a platform release function.\<close>

fun is_release_of :: "'p \<Rightarrow> 'p call \<Rightarrow> bool" where
  "is_release_of p (aligned_free_call q) = (q = p)"
| "is_release_of p (free_call q) = (q = p)"
| "is_release_of p (aligned_malloc_call sz al r) = False"
| "is_release_of p (posix_memalign_call al sz rc stored) = False"
| "is_release_of p (placement_new q) = False"
| "is_release_of p (destructor_call q) = False"

fun is_placement_new :: "'p call \<Rightarrow> bool" where
  "is_placement_new (placement_new q) = True"
| "is_placement_new (aligned_malloc_call sz al r) = False"
| "is_placement_new (posix_memalign_call al sz rc stored) = False"
| "is_placement_new (aligned_free_call q) = False"
| "is_placement_new (free_call q) = False"
| "is_placement_new (destructor_call q) = False"

fun is_destructor_call :: "'p call \<Rightarrow> bool" where
  "is_destructor_call (destructor_call q) = True"
| "is_destructor_call (aligned_malloc_call sz al r) = False"
| "is_destructor_call (posix_memalign_call al sz rc stored) = False"
| "is_destructor_call (aligned_free_call q) = False"
| "is_destructor_call (free_call q) = False"
| "is_destructor_call (placement_new q) = False"

text \<open>The calls an operation added to the trace \<open>tr\<close> it started from.\<close>

definition added :: "'a list \<Rightarrow> 'a list \<Rightarrow> 'a list" where
  "added tr tr' = drop (length tr) tr'"

subsection \<open>The contract of the platform primitive\<close>

text \<open>
  A primitive that succeeds hands out a pointer on the requested boundary:
  \<open>_aligned_malloc\<close> by returning it, \<open>posix_memalign\<close> by returning 0 and storing
  it through its first argument.
\<close>

definition aligned_on_success :: "'w::len word platform \<Rightarrow> bool" where
  "aligned_on_success pf =
     (\<forall>tr sz al.
        (aligned_malloc pf tr sz al \<noteq> 0 \<longrightarrow> aligned_malloc pf tr sz al mod al = 0) \<and>
        (fst (posix_memalign pf tr al sz) = 0 \<longrightarrow>
           (\<exists>q. snd (posix_memalign pf tr al sz) = Some q \<and> q mod al = 0)))"

subsection \<open>Two platforms and three types to run the model on\<close>

text \<open>
  A 64-bit machine with one arena of 65536 bytes at address 65536. A request is granted,
  with the arena's address, when it fits and the arena's address is on the requested
  boundary. Otherwise \<open>_aligned_malloc\<close> returns null and \<open>posix_memalign\<close> returns
  \<open>ENOMEM\<close> (12) and leaves its first argument as it was.
\<close>

definition arena_grants :: "64 word \<Rightarrow> 64 word \<Rightarrow> bool" where
  "arena_grants sz al = (al \<noteq> 0 \<and> 65536 mod al = 0 \<and> sz \<le> 65536)"

definition windows_machine :: "64 word platform" where
  "windows_machine =
     \<lparr>target = SIV3D_TARGET_WINDOWS,
      aligned_malloc = (\<lambda>tr sz al. if arena_grants sz al then 65536 else 0),
      posix_memalign = (\<lambda>tr al sz. (12, None)),
      indeterminate = (\<lambda>tr. 0xDEADBEEF)\<rparr>"

definition posix_machine :: "64 word platform" where
  "posix_machine =
     \<lparr>target = SIV3D_TARGET_OTHER,
      aligned_malloc = (\<lambda>tr sz al. 0),
      posix_memalign = (\<lambda>tr al sz. if arena_grants sz al then (0, Some 65536) else (12, None)),
      indeterminate = (\<lambda>tr. 0xDEADBEEF)\<rparr>"

definition cache_line :: "64 word cpp_type" where
  "cache_line = \<lparr>sizeof = 64, alignof = 64\<rparr>"

definition huge_array :: "64 word cpp_type" where
  "huge_array = \<lparr>sizeof = 0x100000000, alignof = 64\<rparr>"

definition int32 :: "64 word cpp_type" where
  "int32 = \<lparr>sizeof = 4, alignof = 4\<rparr>"

section \<open>Properties\<close>

subsection \<open>Traces\<close>

lemma allocated_from_append:
  "allocated_from H (xs @ ys) =
     (case allocated_from H xs of None \<Rightarrow> None | Some H' \<Rightarrow> allocated_from H' ys)"
  by (induction xs arbitrary: H) (auto split: option.splits)

lemma allocated_snoc:
  "allocated (tr @ [c]) = (case allocated tr of None \<Rightarrow> None | Some H \<Rightarrow> platform_effect c H)"
  by (simp add: allocated_def allocated_from_append split: option.splits)

lemma added_append: "added tr (tr @ cs) = cs"
  by (simp add: added_def)

lemma AlignedMalloc_trace:
  "\<exists>c. snd (AlignedMalloc pf ty A n tr) = tr @ [c] \<and> requested c = Some (sizeof ty * n, A)"
  by (cases "target pf") (auto simp: AlignedMalloc_def Let_def split: prod.splits)

lemma AlignedFree_trace:
  "\<exists>c. AlignedFree pf p tr = tr @ [c] \<and> is_release_of p c"
  by (cases "target pf") (auto simp: AlignedFree_def)

subsection \<open>Allocation failure\<close>

text \<open>
  On Windows a failed primitive gives a null result. On the other targets the result of
  a call in which \<open>posix_memalign\<close> stored nothing is the indeterminate value of the
  local variable.
\<close>

lemma AlignedMalloc_windows_failure:
  "target pf = SIV3D_TARGET_WINDOWS \<Longrightarrow> primitive_failed pf tr (sizeof ty * n) A \<Longrightarrow>
   fst (AlignedMalloc pf ty A n tr) = 0"
  by (simp add: primitive_failed_def AlignedMalloc_def)

lemma AlignedMalloc_other_failure:
  "target pf = SIV3D_TARGET_OTHER \<Longrightarrow> snd (posix_memalign pf tr A (sizeof ty * n)) = None \<Longrightarrow>
   fst (AlignedMalloc pf ty A n tr) = indeterminate pf tr"
  by (auto simp add: AlignedMalloc_def Let_def split: prod.splits)

text \<open>
  C1. The claim: for every element size, alignment and count, \<open>AlignedMalloc\<close> reports
  a failed platform primitive by returning null, and never throws. The result type has
  no exception, so the function cannot throw. The null result holds on Windows
  (\<open>AlignedMalloc_windows_failure\<close>) and not on the other targets: on
  \<open>posix_machine\<close>, a request of \<open>2^32\<close> bytes at alignment 64 makes
  \<open>posix_memalign\<close> fail, and the call returns the indeterminate value
  \<open>0xDEADBEEF\<close>, which is not null.
\<close>

theorem AlignedMalloc_posix_failure_not_null:
  "primitive_failed posix_machine [] (sizeof huge_array * 1) 64 \<and>
   fst (AlignedMalloc posix_machine huge_array 64 1 []) = 0xDEADBEEF \<and>
   fst (AlignedMalloc posix_machine huge_array 64 1 []) \<noteq> 0"
  by (simp add: primitive_failed_def AlignedMalloc_def posix_machine_def huge_array_def
      arena_grants_def)

subsection \<open>AlignedNew\<close>

text \<open>
  Whatever non-null pointer the allocation returned, a constructor that throws at it
  makes \<open>AlignedNew\<close> throw the same exception after one release of that pointer.
\<close>

lemma AlignedNew_rethrows_after_release:
  assumes "AlignedMalloc pf ty (alignof ty) 1 tr = (p, tr @ [alloc])"
    and "p \<noteq> 0" and "ctor p = Some e"
  shows "\<exists>rel. AlignedNew pf ty ctor tr = (Inl (rethrown e), tr @ [alloc, placement_new p, rel]) \<and>
           is_release_of p rel \<and> (rel = aligned_free_call p \<or> rel = free_call p)"
  using assms by (cases "target pf") (simp_all add: AlignedNew_def AlignedFree_def)

text \<open>
  When the primitive handed out the block \<open>p\<close>, \<open>AlignedMalloc\<close> returns \<open>p\<close>, and
  its one call adds \<open>p\<close> to the allocated blocks.
\<close>

lemma AlignedMalloc_returns_primitive_block:
  assumes "primitive_block pf tr (sizeof ty * n) A = Some p"
  shows "\<exists>alloc. AlignedMalloc pf ty A n tr = (p, tr @ [alloc]) \<and>
           requested alloc = Some (sizeof ty * n, A) \<and> p \<noteq> 0 \<and>
           (\<forall>H. platform_effect alloc H = Some (insert p H)) \<and>
           \<not> is_release_of p alloc"
proof (cases "target pf")
  case SIV3D_TARGET_WINDOWS
  with assms show ?thesis
    by (simp add: primitive_block_def AlignedMalloc_def Let_def split: if_splits)
next
  case SIV3D_TARGET_OTHER
  obtain rc stored where pm: "posix_memalign pf tr A (sizeof ty * n) = (rc, stored)"
    by (cases "posix_memalign pf tr A (sizeof ty * n)")
  with assms SIV3D_TARGET_OTHER have "rc = 0" "stored = Some p" "p \<noteq> 0"
    by (simp_all add: primitive_block_def split: if_splits option.splits)
  with pm SIV3D_TARGET_OTHER show ?thesis
    by (simp add: AlignedMalloc_def)
qed

text \<open>
  C2. If the platform primitive handed out the block \<open>p\<close> for the allocation inside
  \<open>AlignedNew\<close>, a block that was not allocated before, and the constructor throws
  \<open>e\<close> at \<open>p\<close>, then \<open>AlignedNew\<close> throws \<open>e\<close> again, and the calls it made
  are, in order: the allocation, which made \<open>p\<close> an allocated block; the constructor at
  \<open>p\<close>; one release of \<open>p\<close>. That very block is released exactly once before the
  exception leaves, and the allocated blocks are again those from before the call:
  nothing is leaked.
\<close>

theorem AlignedNew_constructor_failure_no_leak:
  assumes "primitive_block pf tr (sizeof ty * 1) (alignof ty) = Some p"
    and "ctor p = Some e"
    and "allocated tr = Some H" and "p \<notin> H"
  shows "fst (AlignedNew pf ty ctor tr) = Inl (rethrown e) \<and>
         (\<exists>alloc rel. snd (AlignedNew pf ty ctor tr) = tr @ [alloc, placement_new p, rel] \<and>
            requested alloc = Some (sizeof ty * 1, alignof ty) \<and>
            allocated (tr @ [alloc]) = Some (insert p H) \<and>
            is_release_of p rel) \<and>
         length (filter (is_release_of p) (added tr (snd (AlignedNew pf ty ctor tr)))) = 1 \<and>
         allocated (snd (AlignedNew pf ty ctor tr)) = Some H"
proof -
  from AlignedMalloc_returns_primitive_block [OF assms(1)]
  obtain alloc where am: "AlignedMalloc pf ty (alignof ty) 1 tr = (p, tr @ [alloc])"
    and req: "requested alloc = Some (sizeof ty * 1, alignof ty)"
    and nz: "p \<noteq> 0"
    and eff: "platform_effect alloc H = Some (insert p H)"
    and nrel: "\<not> is_release_of p alloc"
    by blast
  from AlignedNew_rethrows_after_release [where ctor = ctor, OF am nz assms(2)]
  obtain rel where new: "AlignedNew pf ty ctor tr =
      (Inl (rethrown e), tr @ [alloc, placement_new p, rel])"
    and rel: "is_release_of p rel"
    and shape: "rel = aligned_free_call p \<or> rel = free_call p"
    by blast
  have h1: "allocated (tr @ [alloc]) = Some (insert p H)"
    using assms(3) eff by (simp add: allocated_snoc)
  then have h2: "allocated ((tr @ [alloc]) @ [placement_new p]) = Some (insert p H)"
    by (simp only: allocated_snoc [of "tr @ [alloc]"]) simp
  have "platform_effect rel (insert p H) = Some H"
    using shape nz assms(4) by auto
  with h2 have h3: "allocated (((tr @ [alloc]) @ [placement_new p]) @ [rel]) = Some H"
    by (simp only: allocated_snoc [of "(tr @ [alloc]) @ [placement_new p]"]) simp
  have count: "length (filter (is_release_of p) [alloc, placement_new p, rel]) = 1"
    using nrel rel by simp
  from new req h1 rel count h3 show ?thesis
    by (simp add: added_append)
qed

theorem AlignedNew_constructor_failure_no_leak_witness:
  "primitive_block windows_machine [] (sizeof cache_line * 1) (alignof cache_line) = Some 65536 \<and>
   (\<lambda>p :: 64 word. Some ''ctor failed'') 65536 = Some ''ctor failed'' \<and>
   allocated ([] :: 64 trace) = Some {} \<and> (65536 :: 64 word) \<notin> {} \<and>
   fst (AlignedNew windows_machine cache_line (\<lambda>p. Some ''ctor failed'') []) =
     Inl (rethrown ''ctor failed'') \<and>
   length (filter (is_release_of 65536)
     (added [] (snd (AlignedNew windows_machine cache_line (\<lambda>p. Some ''ctor failed'') [])))) = 1 \<and>
   allocated (snd (AlignedNew windows_machine cache_line (\<lambda>p. Some ''ctor failed'') [])) =
     Some {}"
proof -
  have h1: "primitive_block windows_machine [] (sizeof cache_line * 1) (alignof cache_line) =
      Some 65536"
    by (simp add: primitive_block_def windows_machine_def cache_line_def arena_grants_def)
  have h2: "(\<lambda>p :: 64 word. Some ''ctor failed'') 65536 = Some ''ctor failed''" by simp
  have h3: "allocated ([] :: 64 trace) = Some {}" by (simp add: allocated_def)
  have h4: "(65536 :: 64 word) \<notin> {}" by simp
  from AlignedNew_constructor_failure_no_leak [OF h1 h2 h3 h4] h1 h3 show ?thesis by simp
qed

text \<open>
  C3. If the allocation inside \<open>AlignedNew\<close> returns null, \<open>AlignedNew\<close> throws
  \<open>std::bad_alloc\<close> having made the allocation call only: no constructor runs. In no
  case does \<open>AlignedNew\<close> run the constructor at the null address, and a pointer it
  returns normally is not null.
\<close>

theorem AlignedNew_null_allocation:
  "(fst (AlignedMalloc pf ty (alignof ty) 1 tr) = 0 \<longrightarrow>
      AlignedNew pf ty ctor tr = (Inl bad_alloc, snd (AlignedMalloc pf ty (alignof ty) 1 tr)) \<and>
      filter is_placement_new (added tr (snd (AlignedNew pf ty ctor tr))) = []) \<and>
   placement_new 0 \<notin> set (added tr (snd (AlignedNew pf ty ctor tr))) \<and>
   (\<forall>p. fst (AlignedNew pf ty ctor tr) = Inr p \<longrightarrow> p \<noteq> 0)"
proof -
  obtain p tr1 where am: "AlignedMalloc pf ty (alignof ty) 1 tr = (p, tr1)"
    by (cases "AlignedMalloc pf ty (alignof ty) 1 tr")
  from AlignedMalloc_trace [of pf ty "alignof ty" 1 tr] am
  obtain alloc where tr1: "tr1 = tr @ [alloc]"
    and req: "requested alloc = Some (sizeof ty * 1, alignof ty)"
    by auto
  have np: "\<not> is_placement_new alloc" "alloc \<noteq> placement_new 0"
    using req by (cases alloc; auto)+
  from AlignedFree_trace [of pf p "tr1 @ [placement_new p]"]
  obtain rel where free: "AlignedFree pf p (tr1 @ [placement_new p]) = tr1 @ [placement_new p, rel]"
    and rel: "is_release_of p rel"
    by auto
  have nr: "rel \<noteq> placement_new 0"
    using rel by (cases rel) auto
  show ?thesis
  proof (cases "p = 0")
    case True
    then show ?thesis
      using am np by (simp add: AlignedNew_def tr1 added_append)
  next
    case False
    then show ?thesis
      using am np nr free by (cases "ctor p") (simp_all add: AlignedNew_def tr1 added_append)
  qed
qed

theorem AlignedNew_null_allocation_witness:
  "fst (AlignedMalloc windows_machine huge_array (alignof huge_array) 1 []) = 0 \<and>
   AlignedNew windows_machine huge_array (\<lambda>p. None :: unit option) [] =
     (Inl bad_alloc, [aligned_malloc_call 0x100000000 64 0]) \<and>
   fst (AlignedNew windows_machine cache_line (\<lambda>p. None :: unit option) []) = Inr 65536 \<and>
   (65536 :: 64 word) \<noteq> 0"
proof -
  have h1: "AlignedMalloc windows_machine huge_array (alignof huge_array) 1 [] =
      (0, [aligned_malloc_call 0x100000000 64 0])"
    by (simp add: AlignedMalloc_def windows_machine_def huge_array_def arena_grants_def)
  have h2: "fst (AlignedNew windows_machine cache_line (\<lambda>p. None :: unit option) []) = Inr 65536"
    by (simp add: AlignedNew_def AlignedMalloc_def windows_machine_def cache_line_def
        arena_grants_def)
  from AlignedNew_null_allocation [of windows_machine huge_array "[]" "\<lambda>p. None :: unit option"]
    AlignedNew_null_allocation [of windows_machine cache_line "[]" "\<lambda>p. None :: unit option"]
    h1 h2
  show ?thesis by simp
qed

subsection \<open>HasAlignment and the factories\<close>

text \<open>
  C4. \<open>HasAlignment<Type>::value\<close> is true exactly when \<open>alignof(Type)\<close>, as a
  number, is strictly greater than \<open>SIV3D_ALLOCATOR_MIN_ALIGNMENT\<close>.
\<close>

theorem HasAlignment_iff_exceeds_minimum:
  "HasAlignment min_alignment ty \<longleftrightarrow> unat (alignof ty) > unat min_alignment"
  by (simp add: HasAlignment_def word_less_nat_alt)

theorem HasAlignment_iff_exceeds_minimum_witness:
  "HasAlignment (16 :: 64 word) cache_line \<and> \<not> HasAlignment (16 :: 64 word) int32 \<and>
   \<not> HasAlignment (64 :: 64 word) cache_line"
  using HasAlignment_iff_exceeds_minimum [of "16 :: 64 word" cache_line]
    HasAlignment_iff_exceeds_minimum [of "16 :: 64 word" int32]
    HasAlignment_iff_exceeds_minimum [of "64 :: 64 word" cache_line]
  by (simp add: cache_line_def int32_def)

text \<open>
  C5. For every type, a call of \<open>MakeUnique\<close> or of \<open>MakeShared\<close> has exactly one
  viable overload. When \<open>HasAlignment\<close> is false it is the one that forwards to
  \<open>std::make_unique\<close> or \<open>std::make_shared\<close>; when it is true it is the one built on
  \<open>AlignedNew\<close> with \<open>AlignedDeleter\<close>.
\<close>

theorem MakeUnique_MakeShared_dispatch:
  "resolve m ty MakeUnique = Inr (if HasAlignment m ty then AlignedUnique else std_make_unique) \<and>
   resolve m ty MakeShared = Inr (if HasAlignment m ty then AlignedShared else std_make_shared) \<and>
   length (viable m ty MakeUnique) = 1 \<and> length (viable m ty MakeShared) = 1 \<and>
   obtains_with AlignedUnique = AlignedNew_function \<and> releases_with AlignedUnique = AlignedDeleter \<and>
   obtains_with AlignedShared = AlignedNew_function \<and> releases_with AlignedShared = AlignedDeleter \<and>
   obtains_with std_make_unique = std_new \<and> obtains_with std_make_shared = std_new"
  by (simp add: resolve_def viable_def MakeUnique_def MakeShared_def AlignedUnique_def
      AlignedShared_def std_make_unique_def std_make_shared_def)

theorem MakeUnique_MakeShared_dispatch_witness:
  "resolve (16 :: 64 word) cache_line MakeUnique = Inr AlignedUnique \<and>
   resolve (16 :: 64 word) int32 MakeUnique = Inr std_make_unique \<and>
   resolve (16 :: 64 word) cache_line MakeShared = Inr AlignedShared \<and>
   resolve (16 :: 64 word) int32 MakeShared = Inr std_make_shared"
proof -
  have "HasAlignment (16 :: 64 word) cache_line" "\<not> HasAlignment (16 :: 64 word) int32"
    by (simp_all add: HasAlignment_def cache_line_def int32_def)
  then show ?thesis
    using MakeUnique_MakeShared_dispatch [of "16 :: 64 word" cache_line]
      MakeUnique_MakeShared_dispatch [of "16 :: 64 word" int32]
    by simp
qed

subsection \<open>IsAligned\<close>

text \<open>
  C6. For every pointer \<open>p\<close> and every alignment \<open>a\<close>, \<open>IsAligned(p, a)\<close> returns
  true exactly when the address of \<open>p\<close> is a multiple of \<open>a\<close>. An alignment is a
  power of two; the statement holds for these, and for every other \<open>a\<close> that is not 0.
  The function has no effect: it takes no trace and makes no call.
\<close>

theorem IsAligned_iff_multiple:
  "(a \<noteq> 0 \<longrightarrow> IsAligned p a = Inr (unat a dvd unat p)) \<and>
   (k < LENGTH('w) \<longrightarrow> IsAligned p (2 ^ k) = Inr (2 ^ k dvd unat p))"
  for p :: "'w::len word"
proof -
  have nonzero: "IsAligned p b = Inr (unat b dvd unat p)" if "b \<noteq> 0" for b
    using that by (simp add: IsAligned_def dvd_eq_mod_eq_0 unat_mod_distrib flip: unat_eq_0)
  have "IsAligned p (2 ^ k) = Inr (2 ^ k dvd unat p)" if "k < LENGTH('w)"
  proof -
    from that have "(2 :: 'w word) ^ k \<noteq> 0" by simp
    moreover from that have "unat ((2 :: 'w word) ^ k) = 2 ^ k"
      by (simp add: of_nat_inverse)
    ultimately show ?thesis
      using nonzero [of "2 ^ k"] by simp
  qed
  with nonzero show ?thesis by blast
qed

theorem IsAligned_iff_multiple_witness:
  "(64 :: 64 word) \<noteq> 0 \<and> (6 :: nat) < LENGTH(64) \<and>
   IsAligned (65536 :: 64 word) 64 = Inr True \<and>
   IsAligned (0xDEADBEEF :: 64 word) 64 = Inr False \<and>
   IsAligned (65536 :: 64 word) (2 ^ 6) = Inr True"
  using IsAligned_iff_multiple [where a = "64 :: 64 word" and p = 65536 and k = 6]
    IsAligned_iff_multiple [where a = "64 :: 64 word" and p = "0xDEADBEEF" and k = 6]
  by simp

text \<open>
  C10. \<open>IsAligned\<close> takes the address modulo the alignment. At alignment 0 this is a
  division by zero. At every alignment greater than 0 the function returns the result of
  the comparison and the division by zero does not occur.
\<close>

theorem IsAligned_zero_divisor:
  "IsAligned p 0 = Inl division_by_zero \<and>
   (0 < a \<longrightarrow> IsAligned p a = Inr (p mod a = 0) \<and> IsAligned p a \<noteq> Inl division_by_zero)"
  by (auto simp add: IsAligned_def)

theorem IsAligned_zero_divisor_witness:
  "(0 :: 64 word) < 64 \<and> IsAligned (65536 :: 64 word) 64 = Inr True \<and>
   IsAligned (65536 :: 64 word) 0 = Inl division_by_zero"
  using IsAligned_zero_divisor [of "65536 :: 64 word" 64] by simp

subsection \<open>AlignedFree and AlignedDelete\<close>

text \<open>
  C7. The claim: \<open>AlignedFree(nullptr)\<close> and \<open>AlignedDelete(nullptr)\<close> do nothing,
  and for a pointer that is not null \<open>AlignedDelete\<close> calls the destructor and then
  releases the block. The second part does not hold for a destructor that exits by an
  exception: on \<open>posix_machine\<close>, with block 65536 allocated, \<open>AlignedDelete\<close> calls
  the destructor, the exception leaves, no release is made and the block stays allocated.
\<close>

theorem AlignedDelete_throwing_destructor_counterexample:
  "AlignedDelete posix_machine (\<lambda>p. Some ''dtor failed'') 65536
     [posix_memalign_call 64 64 0 (Some 65536)] =
     (Some ''dtor failed'', [posix_memalign_call 64 64 0 (Some 65536), destructor_call 65536]) \<and>
   filter (is_release_of 65536)
     (snd (AlignedDelete posix_machine (\<lambda>p. Some ''dtor failed'') 65536
        [posix_memalign_call 64 64 0 (Some 65536)])) = [] \<and>
   allocated
     (snd (AlignedDelete posix_machine (\<lambda>p. Some ''dtor failed'') 65536
        [posix_memalign_call 64 64 0 (Some 65536)])) = Some {65536}"
  by (simp add: AlignedDelete_def allocated_def)

text \<open>
  C7, amended. \<open>AlignedFree(nullptr)\<close> passes null to the platform's release function,
  which leaves the allocated blocks as they are, and runs no destructor.
  \<open>AlignedDelete(nullptr)\<close> makes no call at all. \<open>AlignedDelete(p)\<close> with \<open>p\<close> not
  null calls the destructor at \<open>p\<close> first. If the destructor returns, the release of
  \<open>p\<close> follows and these are the only two calls. If the destructor exits by an
  exception, the exception leaves \<open>AlignedDelete\<close> and the destructor call is the only
  call: the block is not released.
\<close>

theorem null_release_and_delete_order:
  "allocated (AlignedFree pf 0 tr) = allocated tr \<and>
   (\<exists>rel. AlignedFree pf 0 tr = tr @ [rel] \<and> is_release_of 0 rel) \<and>
   filter is_destructor_call (added tr (AlignedFree pf 0 tr)) = [] \<and>
   AlignedDelete pf dtor 0 tr = (None, tr) \<and>
   (p \<noteq> 0 \<longrightarrow> dtor p = None \<longrightarrow>
      (\<exists>rel. AlignedDelete pf dtor p tr = (None, tr @ [destructor_call p, rel]) \<and>
             is_release_of p rel)) \<and>
   (p \<noteq> 0 \<longrightarrow> dtor p = Some e \<longrightarrow>
      AlignedDelete pf dtor p tr = (Some e, tr @ [destructor_call p]))"
proof -
  have a: "allocated (AlignedFree pf 0 tr) = allocated tr"
    by (cases "target pf") (simp_all add: AlignedFree_def allocated_snoc split: option.splits)
  have b: "\<exists>rel. AlignedFree pf 0 tr = tr @ [rel] \<and> is_release_of 0 rel"
    by (rule AlignedFree_trace)
  have c: "filter is_destructor_call (added tr (AlignedFree pf 0 tr)) = []"
    by (cases "target pf") (simp_all add: AlignedFree_def added_append)
  have d: "AlignedDelete pf dtor 0 tr = (None, tr)"
    by (simp add: AlignedDelete_def)
  have e: "\<exists>rel. AlignedDelete pf dtor p tr = (None, tr @ [destructor_call p, rel]) \<and>
      is_release_of p rel"
    if "p \<noteq> 0" and "dtor p = None"
    using that AlignedFree_trace [of pf p "tr @ [destructor_call p]"]
    by (auto simp: AlignedDelete_def)
  have f: "AlignedDelete pf dtor p tr = (Some e, tr @ [destructor_call p])"
    if "p \<noteq> 0" and "dtor p = Some e"
    using that by (simp add: AlignedDelete_def)
  from a b c d e f show ?thesis by blast
qed

theorem null_release_and_delete_order_witness:
  "(65536 :: 64 word) \<noteq> 0 \<and>
   AlignedDelete posix_machine (\<lambda>p. None :: string option) 65536 [] =
     (None, [destructor_call 65536, free_call 65536]) \<and>
   AlignedDelete posix_machine (\<lambda>p. Some ''dtor failed'') 65536 [] =
     (Some ''dtor failed'', [destructor_call 65536]) \<and>
   allocated (AlignedFree posix_machine 0 [posix_memalign_call 64 64 0 (Some 65536)]) =
     Some {65536}"
proof -
  have "AlignedDelete posix_machine (\<lambda>p. None :: string option) 65536 [] =
      (None, [destructor_call 65536, free_call 65536])"
    by (simp add: AlignedDelete_def AlignedFree_def posix_machine_def)
  moreover have "allocated [posix_memalign_call 64 64 0 (Some (65536 :: 64 word))] = Some {65536}"
    by (simp add: allocated_def)
  ultimately show ?thesis
    using null_release_and_delete_order
        [of posix_machine "[posix_memalign_call 64 64 0 (Some 65536)]"
          "\<lambda>p. None :: string option" 65536]
      null_release_and_delete_order
        [of posix_machine "[]" "\<lambda>p. Some ''dtor failed''" 65536 "''dtor failed''"]
    by simp
qed

subsection \<open>The size and the alignment of a request\<close>



subsection \<open>Alignment of the returned pointer\<close>

lemma aligned_on_success_windows:
  assumes "aligned_on_success pf" and "aligned_malloc pf tr sz al \<noteq> 0"
  shows "aligned_malloc pf tr sz al mod al = 0"
  by (rule assms(1) [unfolded aligned_on_success_def, THEN spec, THEN spec, THEN spec,
        THEN conjunct1, THEN mp]) (rule assms(2))

lemma aligned_on_success_other:
  assumes "aligned_on_success pf" and "fst (posix_memalign pf tr al sz) = 0"
  shows "\<exists>q. snd (posix_memalign pf tr al sz) = Some q \<and> q mod al = 0"
  by (rule assms(1) [unfolded aligned_on_success_def, THEN spec, THEN spec, THEN spec,
        THEN conjunct2, THEN mp]) (rule assms(2))

lemma posix_machine_contract: "aligned_on_success posix_machine"
  by (auto simp add: aligned_on_success_def posix_machine_def arena_grants_def)

text \<open>
  When the primitive keeps its contract and did not fail, the pointer \<open>AlignedMalloc\<close>
  returns is on the requested boundary, on either target.
\<close>

lemma AlignedMalloc_aligned_unless_failed:
  assumes "aligned_on_success pf" and "A \<noteq> 0"
    and "\<not> primitive_failed pf tr (sizeof ty * n) A"
  shows "IsAligned (fst (AlignedMalloc pf ty A n tr)) A = Inr True"
proof (cases "target pf")
  case SIV3D_TARGET_WINDOWS
  with assms(3) have "aligned_malloc pf tr (sizeof ty * n) A \<noteq> 0"
    by (simp add: primitive_failed_def)
  with assms(1) have "aligned_malloc pf tr (sizeof ty * n) A mod A = 0"
    by (rule aligned_on_success_windows)
  then show ?thesis
    using SIV3D_TARGET_WINDOWS assms(2)
    by (simp add: AlignedMalloc_def IsAligned_def Let_def)
next
  case SIV3D_TARGET_OTHER
  with assms(3) have "fst (posix_memalign pf tr A (sizeof ty * n)) = 0"
    by (simp add: primitive_failed_def)
  with assms(1) have "\<exists>q. snd (posix_memalign pf tr A (sizeof ty * n)) = Some q \<and> q mod A = 0"
    by (rule aligned_on_success_other)
  then obtain q where q: "snd (posix_memalign pf tr A (sizeof ty * n)) = Some q" "q mod A = 0"
    by (elim exE conjE)
  from q(1) obtain rc where "posix_memalign pf tr A (sizeof ty * n) = (rc, Some q)"
    by (cases "posix_memalign pf tr A (sizeof ty * n)") simp
  then show ?thesis
    using SIV3D_TARGET_OTHER assms(2) q(2)
    by (simp add: AlignedMalloc_def IsAligned_def)
qed

text \<open>
  C9. The claim: when the platform primitive returns pointers on the requested boundary
  on success, every non-null pointer \<open>AlignedMalloc<T, A>()\<close> returns satisfies
  \<open>IsAligned(pointer, A)\<close>. \<open>posix_machine\<close> keeps that contract, and the pointer
  returned for a failed request of \<open>2^32\<close> bytes at alignment 64 is the indeterminate
  value \<open>0xDEADBEEF\<close>: not null, and not a multiple of 64.
\<close>

theorem AlignedMalloc_posix_failure_unaligned:
  "aligned_on_success posix_machine \<and>
   fst (AlignedMalloc posix_machine huge_array 64 1 []) \<noteq> 0 \<and>
   IsAligned (fst (AlignedMalloc posix_machine huge_array 64 1 [])) 64 = Inr False"
proof -
  have "fst (AlignedMalloc posix_machine huge_array 64 1 []) = 0xDEADBEEF"
    by (simp add: AlignedMalloc_def posix_machine_def huge_array_def arena_grants_def)
  then show ?thesis
    using posix_machine_contract by (simp add: IsAligned_def)
qed

theorem AlignedMalloc_posix_failure_unaligned_witness:
  "fst (posix_memalign posix_machine [] 64 (sizeof cache_line * 1)) = 0 \<and>
   (\<exists>q. snd (posix_memalign posix_machine [] 64 (sizeof cache_line * 1)) = Some q \<and>
        q mod 64 = 0) \<and>
   IsAligned (fst (AlignedMalloc posix_machine cache_line 64 1 [])) 64 = Inr True \<and>
   fst (posix_memalign posix_machine [] 64 (sizeof huge_array * 1)) \<noteq> 0 \<and>
   IsAligned (fst (AlignedMalloc posix_machine huge_array 64 1 [])) 64 = Inr False"
proof -
  have granted: "fst (posix_memalign posix_machine [] 64 (sizeof cache_line * 1)) = 0"
    by (simp add: posix_machine_def cache_line_def arena_grants_def)
  have refused: "fst (posix_memalign posix_machine [] 64 (sizeof huge_array * 1)) \<noteq> 0"
    by (simp add: posix_machine_def huge_array_def arena_grants_def)
  have contract: "aligned_on_success posix_machine"
    and unaligned: "IsAligned (fst (AlignedMalloc posix_machine huge_array 64 1 [])) 64 = Inr False"
    using AlignedMalloc_posix_failure_unaligned by simp_all
  have "\<not> primitive_failed posix_machine [] (sizeof cache_line * 1) 64"
    using granted by (simp add: primitive_failed_def posix_machine_def)
  with contract have "IsAligned (fst (AlignedMalloc posix_machine cache_line 64 1 [])) 64 = Inr True"
    by (intro AlignedMalloc_aligned_unless_failed) simp_all
  with granted refused unaligned aligned_on_success_other [OF contract granted]
  show ?thesis by simp
qed

end
